theory Spec2Isabelle
  imports Complex_Main
begin

section \<open>The server binding of grpc-native-core (ext/server.cc)\<close>

text \<open>
  A shallow embedding of \<^verbatim>\<open>packages/grpc-native-core/ext/server.cc\<close>: the two
  operation classes \<^verbatim>\<open>ServerShutdownOp\<close> and \<^verbatim>\<open>NewCallOp\<close>, the \<^verbatim>\<open>Server\<close> object
  and its host-callable methods. Host values are a datatype, thrown exceptions are
  the left summand of the result, the \<^verbatim>\<open>Server\<close> objects live in a store indexed by
  address, and every call into the gRPC core library is appended to a trace.
\<close>

subsection \<open>Handles of the core library\<close>

type_synonym grpc_server = nat
type_synonym grpc_call = nat
type_synonym grpc_server_credentials = nat
type_synonym grpc_slice = string
type_synonym grpc_call_error = int

definition GRPC_CALL_OK :: grpc_call_error where
  "GRPC_CALL_OK = 0"

record gpr_timespec =
  tv_sec :: int
  tv_nsec :: int

record grpc_call_details =
  method_name :: grpc_slice
  host :: grpc_slice
  deadline :: gpr_timespec

type_synonym grpc_metadata_array = "(grpc_slice \<times> grpc_slice) list"

text \<open>
  The fields of \<^verbatim>\<open>grpc_call_details\<close> that the file reads; \<open>method_name\<close> is the
  field \<^verbatim>\<open>method\<close>.
\<close>

text \<open>\<^verbatim>\<open>grpc_call_details_init\<close> and \<^verbatim>\<open>grpc_metadata_array_init\<close>: empty records.\<close>

definition grpc_call_details_init :: grpc_call_details where
  "grpc_call_details_init = \<lparr>method_name = [], host = [], deadline = \<lparr>tv_sec = 0, tv_nsec = 0\<rparr>\<rparr>"

definition grpc_metadata_array_init :: grpc_metadata_array where
  "grpc_metadata_array_init = []"

subsection \<open>Host values and exceptions\<close>

text \<open>
  \<^verbatim>\<open>ShutdownCallback\<close> is the native function held in the static \<^verbatim>\<open>shutdown_cb\<close>;
  every other function value comes from the caller.
\<close>

datatype js_function = ShutdownCallback | UserFunction nat

text \<open>
  The values of the host that the file tests for or builds. Property names are values
  themselves, as in the \<^verbatim>\<open>Nan::Set\<close> and \<^verbatim>\<open>Nan::Get\<close> interface. \<open>JsServer p\<close> is
  the object wrapping the \<^verbatim>\<open>Server\<close> at address \<open>p\<close>; \<open>JsServerCredentials c\<close> wraps a
  credentials pointer, \<open>None\<close> being \<^verbatim>\<open>NULL\<close>.
\<close>

datatype js_value =
    JsUndefined
  | JsNull
  | JsBoolean bool
  | JsNumber int
  | JsString string
  | JsFunction js_function
  | JsDate real
  | JsObject "(js_value \<times> js_value) list"
  | JsServer nat
  | JsServerCredentials "grpc_server_credentials option"

datatype error =
    TypeError string
  | Error string
  | ErrorWithCode string grpc_call_error

fun IsNull :: "js_value \<Rightarrow> bool" where
  "IsNull JsNull = True"
| "IsNull _ = False"

fun IsString :: "js_value \<Rightarrow> bool" where
  "IsString (JsString s) = True"
| "IsString _ = False"

fun IsFunction :: "js_value \<Rightarrow> bool" where
  "IsFunction (JsFunction f) = True"
| "IsFunction _ = False"

fun IsInteger :: "js_value \<Rightarrow> bool" where
  "IsInteger (JsNumber i) = True"
| "IsInteger _ = False"

text \<open>\<^verbatim>\<open>info[i]\<close>: an argument that was not passed reads as undefined.\<close>

definition arg :: "js_value list \<Rightarrow> nat \<Rightarrow> js_value" where
  "arg info i = (if i < length info then info ! i else JsUndefined)"

text \<open>\<^verbatim>\<open>Nan::Set(obj, key, value)\<close> on the property list of an object.\<close>

fun Nan_Set :: "(js_value \<times> js_value) list \<Rightarrow> js_value \<Rightarrow> js_value
    \<Rightarrow> (js_value \<times> js_value) list" where
  "Nan_Set [] k v = [(k, v)]"
| "Nan_Set (p # ps) k v = (if fst p = k then (k, v) # ps else p # Nan_Set ps k v)"

text \<open>
  \<^verbatim>\<open>*Utf8String(value)\<close>: the \<^verbatim>\<open>char *\<close> that the core library receives. A string value
  holds the bytes of its UTF-8 form; read as a C string they end at the first NUL
  byte. The file converts only values that have passed \<open>IsString\<close>.
\<close>

definition c_str :: "string \<Rightarrow> string" where
  "c_str s = takeWhile (\<lambda>c. c \<noteq> CHR 0x00) s"

fun Utf8String :: "js_value \<Rightarrow> string" where
  "Utf8String (JsString s) = c_str s"
| "Utf8String _ = []"

subsection \<open>Operations and tags\<close>

datatype Op =
    ServerShutdownOp nat
  | NewCallOp "grpc_call option" grpc_call_details grpc_metadata_array

text \<open>
  \<^verbatim>\<open>struct tag\<close> (declared in call.h), with the four constructor arguments the file
  passes: the callback, the operations, the call and the persistent call value.
\<close>

record tag =
  callback :: js_value
  ops :: "Op list"
  call :: "grpc_call option"
  call_persist :: js_value

text \<open>
  The helpers of call.cc, slice.cc and timeval.cc that \<^verbatim>\<open>NewCallOp::GetNodeValue\<close>
  calls are parameters.
\<close>

record helpers =
  WrapStruct :: "grpc_call \<Rightarrow> js_value"
  CopyStringFromSlice :: "grpc_slice \<Rightarrow> js_value"
  TimespecToMilliseconds :: "gpr_timespec \<Rightarrow> real"
  ParseMetadata :: "grpc_metadata_array \<Rightarrow> js_value"

subsection \<open>The Server object\<close>

record Server =
  wrapped_server :: grpc_server
  is_shutdown :: bool
  running_self_ref :: "js_value option"

text \<open>The constructor \<^verbatim>\<open>Server::Server(grpc_server *server)\<close>.\<close>

definition Server_init :: "grpc_server \<Rightarrow> Server" where
  "Server_init server =
     \<lparr>wrapped_server = server, is_shutdown = False, running_self_ref = None\<rparr>"

definition FinishShutdown :: "Server \<Rightarrow> Server" where
  "FinishShutdown s = s\<lparr>is_shutdown := True, running_self_ref := None\<rparr>"

subsection \<open>The methods of the two operation classes\<close>

fun GetNodeValue :: "helpers \<Rightarrow> Op \<Rightarrow> js_value" where
  "GetNodeValue hp (ServerShutdownOp server) = JsServer server"
| "GetNodeValue hp (NewCallOp c details request_metadata) =
     (case c of
        None \<Rightarrow> JsNull
      | Some cl \<Rightarrow>
          (let obj = [];
               obj = Nan_Set obj (JsString ''call'') (WrapStruct hp cl);
               obj = Nan_Set obj (JsString ''method'')
                       (CopyStringFromSlice hp (method_name details));
               obj = Nan_Set obj (JsString ''host'')
                       (CopyStringFromSlice hp (host details));
               obj = Nan_Set obj (JsString ''deadline'')
                       (JsDate (TimespecToMilliseconds hp (deadline details)));
               obj = Nan_Set obj (JsString ''metadata'')
                       (ParseMetadata hp request_metadata)
           in JsObject obj))"

fun ParseOp :: "Op \<Rightarrow> js_value \<Rightarrow> bool" where
  "ParseOp (ServerShutdownOp server) v = True"
| "ParseOp (NewCallOp c details request_metadata) v = True"

fun IsFinalOp :: "Op \<Rightarrow> bool" where
  "IsFinalOp (ServerShutdownOp server) = False"
| "IsFinalOp (NewCallOp c details request_metadata) = False"

fun GetTypeString :: "Op \<Rightarrow> string" where
  "GetTypeString (ServerShutdownOp server) = ''try_shutdown''"
| "GetTypeString (NewCallOp c details request_metadata) = ''new_call''"

text \<open>
  \<^verbatim>\<open>OnComplete(success)\<close> on the store of \<^verbatim>\<open>Server\<close> objects: the shutdown operation
  runs \<^verbatim>\<open>server->FinishShutdown()\<close> through its back-reference when \<open>success\<close> holds;
  the body of \<^verbatim>\<open>NewCallOp::OnComplete\<close> is empty.
\<close>

fun OnComplete :: "Op \<Rightarrow> bool \<Rightarrow> Server list \<Rightarrow> Server list" where
  "OnComplete (ServerShutdownOp server) success srvs =
     (if success then srvs[server := FinishShutdown (srvs ! server)] else srvs)"
| "OnComplete (NewCallOp c details request_metadata) success srvs = srvs"

text \<open>\<^verbatim>\<open>NAN_METHOD(ShutdownCallback)\<close>: throws unless its first argument is null.\<close>

definition ShutdownCallback_call :: "js_value list \<Rightarrow> error + js_value" where
  "ShutdownCallback_call info =
     (if \<not> IsNull (arg info 0) then Inl (Error ''forceShutdown failed somehow'')
      else Inr JsUndefined)"

subsection \<open>The core library and the completion queue\<close>

datatype channel_arg_value = ArgInteger int | ArgString string

type_synonym grpc_channel_args = "(string \<times> channel_arg_value) list"

text \<open>
  The calls the file makes into the gRPC core library and into completion_queue.cc,
  in the order they are made. A call that returns a value records it.
\<close>

datatype engine_call =
    E_grpc_server_create grpc_channel_args grpc_server
  | E_grpc_server_register_completion_queue grpc_server
  | E_grpc_server_request_call grpc_server tag grpc_call_error
  | E_grpc_server_add_insecure_http2_port grpc_server string int
  | E_grpc_server_add_secure_http2_port grpc_server string grpc_server_credentials int
  | E_grpc_server_start grpc_server
  | E_grpc_server_shutdown_and_notify grpc_server tag
  | E_grpc_server_cancel_all_calls grpc_server
  | E_CompletionQueueNext

text \<open>
  What the core library answers is a parameter: each function gets the arguments of
  the call and the calls made so far.
\<close>

record engine =
  grpc_server_create :: "grpc_channel_args \<Rightarrow> engine_call list \<Rightarrow> grpc_server"
  grpc_server_request_call :: "grpc_server \<Rightarrow> tag \<Rightarrow> engine_call list \<Rightarrow> grpc_call_error"
  grpc_server_add_insecure_http2_port :: "grpc_server \<Rightarrow> string \<Rightarrow> engine_call list \<Rightarrow> int"
  grpc_server_add_secure_http2_port ::
    "grpc_server \<Rightarrow> string \<Rightarrow> grpc_server_credentials \<Rightarrow> engine_call list \<Rightarrow> int"

record world =
  servers :: "Server list"
  trace :: "engine_call list"

definition called :: "engine_call list \<Rightarrow> world \<Rightarrow> world" where
  "called evs w = w\<lparr>trace := trace w @ evs\<rparr>"

text \<open>
  Modelled from the spec: \<^verbatim>\<open>CompletionQueueNext\<close> is defined in completion_queue.cc,
  which is not part of the sources at hand. It takes no argument. The spec describes
  it as the nudge that prompts the dispatcher after a submission; it says that what
  is consumed right after a shutdown submission is not the completion of the shutdown
  itself, and that the handle reaches its final state only when the dispatcher later
  delivers that completion. The nudge is therefore one entry of the trace, and a
  completion reaches a \<^verbatim>\<open>Server\<close> through \<open>OnComplete\<close> alone.
\<close>

definition CompletionQueueNext :: "world \<Rightarrow> world" where
  "CompletionQueueNext w = called [E_CompletionQueueNext] w"

text \<open>
  Modelled from the spec: \<^verbatim>\<open>ParseChannelArgs\<close> is defined in channel.cc, which is not
  part of the sources at hand. The spec asks for a mapping of string keys to integer or
  string values, and \<^verbatim>\<open>Server::New\<close> reports a failure in the same words.
\<close>

fun parse_channel_arg :: "js_value \<times> js_value \<Rightarrow> (string \<times> channel_arg_value) option" where
  "parse_channel_arg (JsString k, JsNumber i) = Some (k, ArgInteger i)"
| "parse_channel_arg (JsString k, JsString s) = Some (k, ArgString s)"
| "parse_channel_arg _ = None"

fun parse_channel_arg_list :: "(js_value \<times> js_value) list \<Rightarrow> grpc_channel_args option" where
  "parse_channel_arg_list [] = Some []"
| "parse_channel_arg_list (kv # kvs) =
     (case parse_channel_arg kv of
        None \<Rightarrow> None
      | Some a \<Rightarrow>
          (case parse_channel_arg_list kvs of
             None \<Rightarrow> None
           | Some as \<Rightarrow> Some (a # as)))"

fun ParseChannelArgs :: "js_value \<Rightarrow> grpc_channel_args option" where
  "ParseChannelArgs (JsObject kvs) = parse_channel_arg_list kvs"
| "ParseChannelArgs _ = None"

subsection \<open>The methods of Server\<close>

text \<open>
  \<^verbatim>\<open>Server::HasInstance\<close>: the value is an object made from the Server template, that
  is, the wrapper of a \<^verbatim>\<open>Server\<close> that \<^verbatim>\<open>Server::New\<close> has allocated.
  \<^verbatim>\<open>ServerCredentials::HasInstance\<close> is the same test for the credentials class.
\<close>

fun HasInstance :: "world \<Rightarrow> js_value \<Rightarrow> bool" where
  "HasInstance w (JsServer p) = (p < length (servers w))"
| "HasInstance w _ = False"

text \<open>
  \<^verbatim>\<open>ObjectWrap::Unwrap\<close> gives the address of the wrapped object; the methods call it
  only on a value that has passed \<open>HasInstance\<close>.
\<close>

fun Unwrap :: "js_value \<Rightarrow> nat" where
  "Unwrap (JsServer p) = p"
| "Unwrap _ = 0"

fun ServerCredentials_HasInstance :: "js_value \<Rightarrow> bool" where
  "ServerCredentials_HasInstance (JsServerCredentials c) = True"
| "ServerCredentials_HasInstance _ = False"

fun GetWrappedServerCredentials :: "js_value \<Rightarrow> grpc_server_credentials option" where
  "GetWrappedServerCredentials (JsServerCredentials c) = c"
| "GetWrappedServerCredentials _ = None"

definition ShutdownServer :: "nat \<Rightarrow> world \<Rightarrow> world" where
  "ShutdownServer this w =
     (if \<not> is_shutdown (servers w ! this) then
        (let shutdown_callback = JsFunction ShutdownCallback;
             opn = ServerShutdownOp this;
             w = called [E_grpc_server_shutdown_and_notify
                           (wrapped_server (servers w ! this))
                           \<lparr>callback = shutdown_callback, ops = [opn], call = None,
                            call_persist = JsNull\<rparr>] w;
             w = called [E_grpc_server_cancel_all_calls
                           (wrapped_server (servers w ! this))] w
         in CompletionQueueNext w)
      else w)"

text \<open>
  The exception that \<^verbatim>\<open>Server::New\<close> throws for a configuration that
  \<^verbatim>\<open>ParseChannelArgs\<close> does not accept: a \<^verbatim>\<open>TypeError\<close> with this message.
\<close>

definition ConfigurationError :: error where
  "ConfigurationError =
     TypeError (''Server options must be an object with '' @
                ''string keys and integer or string values'')"

text \<open>
  The body of \<^verbatim>\<open>Server::New\<close> for a constructor call. The channel arguments are a
  value here, so \<^verbatim>\<open>DeallocateChannelArgs\<close> has nothing to do.
\<close>

definition New_construct :: "engine \<Rightarrow> js_value list \<Rightarrow> world
    \<Rightarrow> (error + js_value) \<times> world" where
  "New_construct eng info w =
     (case ParseChannelArgs (arg info 0) of
        None \<Rightarrow> (Inl ConfigurationError, w)
      | Some channel_args \<Rightarrow>
          (let srv = grpc_server_create eng channel_args (trace w);
               w = called [E_grpc_server_create channel_args srv] w;
               w = called [E_grpc_server_register_completion_queue srv] w;
               this = JsServer (length (servers w));
               w = w\<lparr>servers := servers w @ [Server_init srv]\<rparr>
           in (Inr this, w)))"

text \<open>
  \<^verbatim>\<open>Server::New\<close>: a plain call makes a constructor call with its first argument and
  returns that call's instance, or leaves its exception pending.
\<close>

definition New :: "engine \<Rightarrow> bool \<Rightarrow> js_value list \<Rightarrow> world
    \<Rightarrow> (error + js_value) \<times> world" where
  "New eng IsConstructCall info w =
     (if \<not> IsConstructCall then
        (case New_construct eng [arg info 0] w of
           (Inl e, w') \<Rightarrow> (Inl e, w')
         | (Inr maybe_instance, w') \<Rightarrow> (Inr maybe_instance, w'))
      else New_construct eng info w)"

definition RequestCall :: "engine \<Rightarrow> js_value \<Rightarrow> js_value list \<Rightarrow> world
    \<Rightarrow> (error + js_value) \<times> world" where
  "RequestCall eng this info w =
     (if \<not> HasInstance w this then
        (Inl (TypeError ''requestCall can only be called on a Server''), w)
      else
        (let server = servers w ! Unwrap this;
             opn = NewCallOp None grpc_call_details_init grpc_metadata_array_init;
             tg = \<lparr>callback = arg info 0, ops = [opn], call = None, call_persist = JsNull\<rparr>;
             err = grpc_server_request_call eng (wrapped_server server) tg (trace w);
             w = called [E_grpc_server_request_call (wrapped_server server) tg err] w
         in if err \<noteq> GRPC_CALL_OK then
              (Inl (ErrorWithCode ''requestCall failed'' err), w)
            else (Inr JsUndefined, CompletionQueueNext w)))"

definition AddHttp2Port :: "engine \<Rightarrow> js_value \<Rightarrow> js_value list \<Rightarrow> world
    \<Rightarrow> (error + js_value) \<times> world" where
  "AddHttp2Port eng this info w =
     (if \<not> HasInstance w this then
        (Inl (TypeError ''addHttp2Port can only be called on a Server''), w)
      else if \<not> IsString (arg info 0) then
        (Inl (TypeError ''addHttp2Port's first argument must be a String''), w)
      else if \<not> ServerCredentials_HasInstance (arg info 1) then
        (Inl (TypeError ''addHttp2Port's second argument must be ServerCredentials''), w)
      else
        (let server = servers w ! Unwrap this;
             addr = Utf8String (arg info 0);
             creds = GetWrappedServerCredentials (arg info 1)
         in case creds of
              None \<Rightarrow>
                (let port = grpc_server_add_insecure_http2_port eng
                              (wrapped_server server) addr (trace w)
                 in (Inr (JsNumber port),
                     called [E_grpc_server_add_insecure_http2_port
                               (wrapped_server server) addr port] w))
            | Some cr \<Rightarrow>
                (let port = grpc_server_add_secure_http2_port eng
                              (wrapped_server server) addr cr (trace w)
                 in (Inr (JsNumber port),
                     called [E_grpc_server_add_secure_http2_port
                               (wrapped_server server) addr cr port] w))))"

definition Start :: "js_value \<Rightarrow> js_value list \<Rightarrow> world \<Rightarrow> (error + js_value) \<times> world" where
  "Start this info w =
     (if \<not> HasInstance w this then
        (Inl (TypeError ''start can only be called on a Server''), w)
      else
        (let p = Unwrap this;
             w = w\<lparr>servers := (servers w)[p := (servers w ! p)\<lparr>running_self_ref := Some this\<rparr>]\<rparr>;
             w = called [E_grpc_server_start (wrapped_server (servers w ! p))] w
         in (Inr JsUndefined, w)))"

definition TryShutdown :: "js_value \<Rightarrow> js_value list \<Rightarrow> world
    \<Rightarrow> (error + js_value) \<times> world" where
  "TryShutdown this info w =
     (if \<not> HasInstance w this then
        (Inl (TypeError ''tryShutdown can only be called on a Server''), w)
      else if \<not> IsFunction (arg info 0) then
        (Inl (Error ''tryShutdown's argument must be a callback''), w)
      else
        (let server = Unwrap this;
             opn = ServerShutdownOp server;
             w = called [E_grpc_server_shutdown_and_notify
                           (wrapped_server (servers w ! server))
                           \<lparr>callback = arg info 0, ops = [opn], call = None,
                            call_persist = JsNull\<rparr>] w
         in (Inr JsUndefined, CompletionQueueNext w)))"

definition ForceShutdown :: "js_value \<Rightarrow> js_value list \<Rightarrow> world
    \<Rightarrow> (error + js_value) \<times> world" where
  "ForceShutdown this info w =
     (if \<not> HasInstance w this then
        (Inl (TypeError ''forceShutdown can only be called on a Server''), w)
      else (Inr JsUndefined, ShutdownServer (Unwrap this) w))"

subsection \<open>Observations on a run\<close>

text \<open>The calls that an operation has added to the trace.\<close>

definition new_calls :: "world \<Rightarrow> world \<Rightarrow> engine_call list" where
  "new_calls w w' = drop (length (trace w)) (trace w')"

text \<open>
  A call that hands work to the core library: an accepted request for a call, a
  shutdown notification, a cancellation of all calls.
\<close>

fun is_submission :: "engine_call \<Rightarrow> bool" where
  "is_submission (E_grpc_server_request_call srv tg err) = (err = GRPC_CALL_OK)"
| "is_submission (E_grpc_server_shutdown_and_notify srv tg) = True"
| "is_submission (E_grpc_server_cancel_all_calls srv) = True"
| "is_submission _ = False"

text \<open>
  The calls of one operation nudge the dispatcher once, right after the submission:
  when they submit anything they are submissions followed by the one nudge that ends
  them, and otherwise they hold no nudge.
\<close>

definition nudged_once_after_submission :: "engine_call list \<Rightarrow> bool" where
  "nudged_once_after_submission evs =
     (if list_ex is_submission evs
      then evs \<noteq> [] \<and> last evs = E_CompletionQueueNext \<and> butlast evs \<noteq> []
           \<and> list_all is_submission (butlast evs)
      else E_CompletionQueueNext \<notin> set evs)"

text \<open>
  A malformed configuration: a mapping with an entry whose key is not a string or whose
  value is neither an integer nor a string.
\<close>

definition malformed :: "js_value \<Rightarrow> bool" where
  "malformed cfg =
     (case cfg of
        JsObject kvs \<Rightarrow>
          list_ex (\<lambda>(k, v). \<not> IsString k \<or> \<not> (IsInteger v \<or> IsString v)) kvs
      | _ \<Rightarrow> False)"

subsection \<open>Example states\<close>

definition example_engine :: engine where
  "example_engine =
     \<lparr>grpc_server_create = (\<lambda>args tr. 7),
      grpc_server_request_call = (\<lambda>srv tg tr. GRPC_CALL_OK),
      grpc_server_add_insecure_http2_port = (\<lambda>srv addr tr. 50051),
      grpc_server_add_secure_http2_port = (\<lambda>srv addr cr tr. 50052)\<rparr>"

definition rejecting_engine :: engine where
  "rejecting_engine = example_engine\<lparr>grpc_server_request_call := (\<lambda>srv tg tr. 1)\<rparr>"

text \<open>One server after \<^verbatim>\<open>new Server({})\<close> and \<^verbatim>\<open>start()\<close>.\<close>

definition started_world :: world where
  "started_world =
     \<lparr>servers = [\<lparr>wrapped_server = 7, is_shutdown = False,
                  running_self_ref = Some (JsServer 0)\<rparr>],
      trace = [E_grpc_server_create [] 7, E_grpc_server_register_completion_queue 7,
               E_grpc_server_start 7]\<rparr>"

text \<open>The same server after a shutdown notification has completed with success.\<close>

definition shut_down_world :: world where
  "shut_down_world =
     started_world\<lparr>servers := OnComplete (ServerShutdownOp 0) True (servers started_world)\<rparr>"

definition example_helpers :: helpers where
  "example_helpers =
     \<lparr>WrapStruct = (\<lambda>c. JsNumber (int c)),
      CopyStringFromSlice = JsString,
      TimespecToMilliseconds = (\<lambda>t. real_of_int (tv_sec t) * 1000),
      ParseMetadata = (\<lambda>md. JsObject (map (\<lambda>(k, v). (JsString k, JsString v)) md))\<rparr>"

section \<open>Properties\<close>

subsection \<open>Shared facts\<close>

lemma servers_called: "servers (called evs w) = servers w"
  by (simp add: called_def)

lemma trace_called: "trace (called evs w) = trace w @ evs"
  by (simp add: called_def)

lemma called_called: "called evs' (called evs w) = called (evs @ evs') w"
  by (simp add: called_def)

lemma new_calls_called: "new_calls w (called evs w) = evs"
  by (simp add: new_calls_def called_def)

lemma new_calls_same: "new_calls w w = []"
  by (simp add: new_calls_def)

lemma started_world_from_New_Start:
  "started_world =
     snd (Start (JsServer 0) []
            (snd (New example_engine True [JsObject []] \<lparr>servers = [], trace = []\<rparr>)))"
  by (simp add: started_world_def Start_def New_def New_construct_def example_engine_def
      called_def arg_def Server_init_def Let_def)

lemma TryShutdown_accepted:
  assumes "HasInstance w this" and "IsFunction (arg info 0)"
  shows "TryShutdown this info w =
           (Inr JsUndefined,
            called [E_grpc_server_shutdown_and_notify
                      (wrapped_server (servers w ! Unwrap this))
                      \<lparr>callback = arg info 0, ops = [ServerShutdownOp (Unwrap this)],
                       call = None, call_persist = JsNull\<rparr>,
                    E_CompletionQueueNext] w)"
  using assms
  by (simp add: TryShutdown_def CompletionQueueNext_def called_called Let_def)

lemma ShutdownServer_live:
  assumes "\<not> is_shutdown (servers w ! p)"
  shows "ShutdownServer p w =
           called [E_grpc_server_shutdown_and_notify (wrapped_server (servers w ! p))
                     \<lparr>callback = JsFunction ShutdownCallback, ops = [ServerShutdownOp p],
                      call = None, call_persist = JsNull\<rparr>,
                   E_grpc_server_cancel_all_calls (wrapped_server (servers w ! p)),
                   E_CompletionQueueNext] w"
  using assms
  by (simp add: ShutdownServer_def CompletionQueueNext_def called_called servers_called
      Let_def)

lemma ShutdownServer_finished:
  assumes "is_shutdown (servers w ! p)"
  shows "ShutdownServer p w = w"
  using assms by (simp add: ShutdownServer_def)

lemma shut_down_world_eq:
  "shut_down_world =
     \<lparr>servers = [\<lparr>wrapped_server = 7, is_shutdown = True, running_self_ref = None\<rparr>],
      trace = [E_grpc_server_create [] 7, E_grpc_server_register_completion_queue 7,
               E_grpc_server_start 7]\<rparr>"
  by (simp add: shut_down_world_def started_world_def FinishShutdown_def)

lemma FinishShutdown_twice: "FinishShutdown (FinishShutdown s) = FinishShutdown s"
  by (simp add: FinishShutdown_def)

lemma parse_channel_arg_None:
  "\<not> IsString k \<or> \<not> (IsInteger v \<or> IsString v) \<Longrightarrow> parse_channel_arg (k, v) = None"
  by (cases k; cases v) simp_all

lemma parse_channel_arg_list_None:
  "list_ex (\<lambda>(k, v). \<not> IsString k \<or> \<not> (IsInteger v \<or> IsString v)) kvs
   \<Longrightarrow> parse_channel_arg_list kvs = None"
proof (induction kvs)
  case Nil
  then show ?case by simp
next
  case (Cons kv kvs)
  obtain k v where kv: "kv = (k, v)" by (cases kv)
  show ?case
  proof (cases "\<not> IsString k \<or> \<not> (IsInteger v \<or> IsString v)")
    case True
    then show ?thesis using parse_channel_arg_None [of k v] by (simp add: kv)
  next
    case False
    with Cons.prems have "list_ex (\<lambda>(k, v). \<not> IsString k \<or> \<not> (IsInteger v \<or> IsString v)) kvs"
      by (auto simp: kv)
    then have "parse_channel_arg_list kvs = None" by (rule Cons.IH)
    then show ?thesis by (simp split: option.splits)
  qed
qed

lemma ParseChannelArgs_malformed: "malformed cfg \<Longrightarrow> ParseChannelArgs cfg = None"
  by (cases cfg) (simp_all add: malformed_def parse_channel_arg_list_None)

lemma nudged_none: "nudged_once_after_submission []"
  by (simp add: nudged_once_after_submission_def)

subsection \<open>tryShutdown\<close>

text \<open>
  Claim C1, as amended. For every server handle that is not shut down, \<open>tryShutdown\<close>
  called with a function returns normally, leaves the handle as it is, and makes two
  calls: it submits one shutdown notification whose tag holds the function and the
  shutdown operation of this handle, and then nudges the completion queue once. It
  submits no cancellation of the pending calls: that call is made by
  \<open>ShutdownServer\<close>, the forced path, only.
\<close>

theorem TryShutdown_live:
  assumes "HasInstance w this" and "IsFunction (arg info 0)"
    and "\<not> is_shutdown (servers w ! Unwrap this)"
  shows "fst (TryShutdown this info w) = Inr JsUndefined
         \<and> servers (snd (TryShutdown this info w)) = servers w
         \<and> trace (snd (TryShutdown this info w)) =
             trace w @
             [E_grpc_server_shutdown_and_notify
                (wrapped_server (servers w ! Unwrap this))
                \<lparr>callback = arg info 0, ops = [ServerShutdownOp (Unwrap this)],
                 call = None, call_persist = JsNull\<rparr>,
              E_CompletionQueueNext]"
  using assms by (simp add: TryShutdown_accepted servers_called trace_called)

theorem TryShutdown_live_witness:
  "HasInstance started_world (JsServer 0)
   \<and> IsFunction (arg [JsFunction (UserFunction 1)] 0)
   \<and> \<not> is_shutdown (servers started_world ! Unwrap (JsServer 0))
   \<and> trace (snd (TryShutdown (JsServer 0) [JsFunction (UserFunction 1)] started_world)) =
       trace started_world @
       [E_grpc_server_shutdown_and_notify 7
          \<lparr>callback = JsFunction (UserFunction 1), ops = [ServerShutdownOp 0],
           call = None, call_persist = JsNull\<rparr>,
        E_CompletionQueueNext]"
proof -
  have h1: "HasInstance started_world (JsServer 0)"
    by (simp add: started_world_def)
  have h2: "IsFunction (arg [JsFunction (UserFunction 1)] 0)"
    by (simp add: arg_def)
  have h3: "\<not> is_shutdown (servers started_world ! Unwrap (JsServer 0))"
    by (simp add: started_world_def)
  show ?thesis
    using TryShutdown_live [OF h1 h2 h3] h1 h2 h3
    by (simp add: started_world_def arg_def)
qed

text \<open>
  Claim C1 as stated fails on the started server: the calls that \<open>tryShutdown\<close> adds
  are the shutdown notification and the nudge, and the trace holds no cancellation.
\<close>

theorem TryShutdown_no_cancel_counterexample:
  "\<not> is_shutdown (servers started_world ! 0)
   \<and> new_calls started_world
        (snd (TryShutdown (JsServer 0) [JsFunction (UserFunction 1)] started_world))
      = [E_grpc_server_shutdown_and_notify 7
           \<lparr>callback = JsFunction (UserFunction 1), ops = [ServerShutdownOp 0],
            call = None, call_persist = JsNull\<rparr>,
         E_CompletionQueueNext]
   \<and> E_grpc_server_cancel_all_calls 7
       \<notin> set (trace (snd (TryShutdown (JsServer 0) [JsFunction (UserFunction 1)]
                              started_world)))"
  by (simp add: started_world_def TryShutdown_def CompletionQueueNext_def called_def
      new_calls_def arg_def Let_def)

text \<open>
  Claim C2, as amended. \<open>tryShutdown\<close> does not test the \<open>is_shutdown\<close> flag. Called
  with a function on a handle that is already shut down, it returns normally and leaves
  the handle as it is, and it still submits a shutdown notification and nudges the
  completion queue once. The function is not called by \<open>tryShutdown\<close>: it is the
  callback of the submitted tag, to be run when the notification completes.
\<close>

theorem TryShutdown_finished:
  assumes "HasInstance w this" and "IsFunction (arg info 0)"
    and "is_shutdown (servers w ! Unwrap this)"
  shows "TryShutdown this info w =
           (Inr JsUndefined,
            w\<lparr>trace := trace w @
               [E_grpc_server_shutdown_and_notify
                  (wrapped_server (servers w ! Unwrap this))
                  \<lparr>callback = arg info 0, ops = [ServerShutdownOp (Unwrap this)],
                   call = None, call_persist = JsNull\<rparr>,
                E_CompletionQueueNext]\<rparr>)"
  using assms(1,2) by (simp add: TryShutdown_accepted called_def)

theorem TryShutdown_finished_witness:
  "HasInstance shut_down_world (JsServer 0)
   \<and> IsFunction (arg [JsFunction (UserFunction 1)] 0)
   \<and> is_shutdown (servers shut_down_world ! Unwrap (JsServer 0))
   \<and> TryShutdown (JsServer 0) [JsFunction (UserFunction 1)] shut_down_world =
       (Inr JsUndefined,
        shut_down_world\<lparr>trace := trace shut_down_world @
          [E_grpc_server_shutdown_and_notify 7
             \<lparr>callback = JsFunction (UserFunction 1), ops = [ServerShutdownOp 0],
              call = None, call_persist = JsNull\<rparr>,
           E_CompletionQueueNext]\<rparr>)"
proof -
  have h1: "HasInstance shut_down_world (JsServer 0)"
    by (simp add: shut_down_world_eq)
  have h2: "IsFunction (arg [JsFunction (UserFunction 1)] 0)"
    by (simp add: arg_def)
  have h3: "is_shutdown (servers shut_down_world ! Unwrap (JsServer 0))"
    by (simp add: shut_down_world_eq)
  show ?thesis
    using TryShutdown_finished [OF h1 h2 h3] h1 h2 h3
    by (simp add: shut_down_world_eq arg_def)
qed

text \<open>
  Claim C2 as stated fails on the server that is shut down: \<open>tryShutdown\<close> adds a
  shutdown notification and a nudge to the trace, so it is not a no-op.
\<close>

theorem TryShutdown_finished_submits_counterexample:
  "is_shutdown (servers shut_down_world ! 0)
   \<and> new_calls shut_down_world
        (snd (TryShutdown (JsServer 0) [JsFunction (UserFunction 1)] shut_down_world))
      = [E_grpc_server_shutdown_and_notify 7
           \<lparr>callback = JsFunction (UserFunction 1), ops = [ServerShutdownOp 0],
            call = None, call_persist = JsNull\<rparr>,
         E_CompletionQueueNext]
   \<and> snd (TryShutdown (JsServer 0) [JsFunction (UserFunction 1)] shut_down_world)
       \<noteq> shut_down_world"
  by (simp add: shut_down_world_eq TryShutdown_def CompletionQueueNext_def called_def
      new_calls_def arg_def Let_def)

subsection \<open>forceShutdown\<close>

text \<open>
  Claim C3, as amended. \<open>forceShutdown\<close> is guarded by the \<open>is_shutdown\<close> flag: on a
  handle that is shut down it submits nothing and changes nothing. On any other handle
  it submits the shutdown notification and the cancellation, nudges once, and leaves
  the flag and the self-reference as they are: only the successful completion of a
  shutdown notification sets the flag and releases the self-reference. After such a
  completion \<open>forceShutdown\<close> is a no-op, and a second such completion changes nothing,
  so the self-reference is released once.
\<close>

theorem ForceShutdown_guarded:
  assumes "HasInstance w this"
  shows "(is_shutdown (servers w ! Unwrap this) \<longrightarrow>
            ForceShutdown this info w = (Inr JsUndefined, w))
         \<and> (\<not> is_shutdown (servers w ! Unwrap this) \<longrightarrow>
            ForceShutdown this info w =
              (Inr JsUndefined,
               w\<lparr>trace := trace w @
                  [E_grpc_server_shutdown_and_notify
                     (wrapped_server (servers w ! Unwrap this))
                     \<lparr>callback = JsFunction ShutdownCallback,
                      ops = [ServerShutdownOp (Unwrap this)],
                      call = None, call_persist = JsNull\<rparr>,
                   E_grpc_server_cancel_all_calls
                     (wrapped_server (servers w ! Unwrap this)),
                   E_CompletionQueueNext]\<rparr>))
         \<and> ForceShutdown this info
              (w\<lparr>servers := OnComplete (ServerShutdownOp (Unwrap this)) True (servers w)\<rparr>)
             = (Inr JsUndefined,
                w\<lparr>servers := OnComplete (ServerShutdownOp (Unwrap this)) True (servers w)\<rparr>)
         \<and> OnComplete (ServerShutdownOp (Unwrap this)) True
              (OnComplete (ServerShutdownOp (Unwrap this)) True (servers w))
             = OnComplete (ServerShutdownOp (Unwrap this)) True (servers w)"
proof -
  obtain p where th: "this = JsServer p" and p: "p < length (servers w)"
    using assms by (cases this) simp_all
  have a: "is_shutdown (servers w ! Unwrap this) \<longrightarrow>
            ForceShutdown this info w = (Inr JsUndefined, w)"
    using assms by (simp add: ForceShutdown_def ShutdownServer_finished)
  have b: "\<not> is_shutdown (servers w ! Unwrap this) \<longrightarrow>
            ForceShutdown this info w =
              (Inr JsUndefined,
               w\<lparr>trace := trace w @
                  [E_grpc_server_shutdown_and_notify
                     (wrapped_server (servers w ! Unwrap this))
                     \<lparr>callback = JsFunction ShutdownCallback,
                      ops = [ServerShutdownOp (Unwrap this)],
                      call = None, call_persist = JsNull\<rparr>,
                   E_grpc_server_cancel_all_calls
                     (wrapped_server (servers w ! Unwrap this)),
                   E_CompletionQueueNext]\<rparr>)"
    using assms by (simp add: ForceShutdown_def ShutdownServer_live called_def)
  have c: "ForceShutdown this info
              (w\<lparr>servers := OnComplete (ServerShutdownOp (Unwrap this)) True (servers w)\<rparr>)
             = (Inr JsUndefined,
                w\<lparr>servers := OnComplete (ServerShutdownOp (Unwrap this)) True (servers w)\<rparr>)"
    using p by (simp add: th ForceShutdown_def ShutdownServer_def FinishShutdown_def)
  have d: "OnComplete (ServerShutdownOp (Unwrap this)) True
              (OnComplete (ServerShutdownOp (Unwrap this)) True (servers w))
             = OnComplete (ServerShutdownOp (Unwrap this)) True (servers w)"
    using p by (simp add: th FinishShutdown_twice)
  from a b c d show ?thesis by blast
qed

theorem ForceShutdown_guarded_witness:
  "HasInstance started_world (JsServer 0)
   \<and> ForceShutdown (JsServer 0) [] started_world =
       (Inr JsUndefined,
        started_world\<lparr>trace := trace started_world @
          [E_grpc_server_shutdown_and_notify 7
             \<lparr>callback = JsFunction ShutdownCallback, ops = [ServerShutdownOp 0],
              call = None, call_persist = JsNull\<rparr>,
           E_grpc_server_cancel_all_calls 7, E_CompletionQueueNext]\<rparr>)
   \<and> ForceShutdown (JsServer 0) [] shut_down_world = (Inr JsUndefined, shut_down_world)"
proof -
  have h: "HasInstance started_world (JsServer 0)"
    by (simp add: started_world_def)
  show ?thesis
    using ForceShutdown_guarded [OF h, of "[]"] h
    by (simp add: shut_down_world_def started_world_def)
qed

text \<open>
  Claim C3 as stated fails for two calls in succession on the started server: no
  completion has set the flag in between, and each call submits the pair.
\<close>

theorem ForceShutdown_twice_counterexample:
  "new_calls started_world
     (snd (ForceShutdown (JsServer 0) []
             (snd (ForceShutdown (JsServer 0) [] started_world))))
   = [E_grpc_server_shutdown_and_notify 7
        \<lparr>callback = JsFunction ShutdownCallback, ops = [ServerShutdownOp 0],
         call = None, call_persist = JsNull\<rparr>,
      E_grpc_server_cancel_all_calls 7, E_CompletionQueueNext,
      E_grpc_server_shutdown_and_notify 7
        \<lparr>callback = JsFunction ShutdownCallback, ops = [ServerShutdownOp 0],
         call = None, call_persist = JsNull\<rparr>,
      E_grpc_server_cancel_all_calls 7, E_CompletionQueueNext]"
  by (simp add: started_world_def ForceShutdown_def ShutdownServer_def
      CompletionQueueNext_def called_def new_calls_def Let_def)

subsection \<open>Completion of the operations\<close>

text \<open>
  Claim C4. Completing the shutdown operation of a handle with success sets
  \<open>is_shutdown\<close> and empties the self-reference of that handle (the wrapped server stays);
  completing it without success leaves every handle unchanged.
\<close>

theorem ServerShutdownOp_OnComplete:
  assumes "p < length srvs"
  shows "is_shutdown (OnComplete (ServerShutdownOp p) True srvs ! p)
         \<and> running_self_ref (OnComplete (ServerShutdownOp p) True srvs ! p) = None
         \<and> wrapped_server (OnComplete (ServerShutdownOp p) True srvs ! p)
             = wrapped_server (srvs ! p)
         \<and> OnComplete (ServerShutdownOp p) False srvs = srvs"
  using assms by (simp add: FinishShutdown_def)

theorem ServerShutdownOp_OnComplete_witness:
  "(0::nat) < length (servers started_world)
   \<and> is_shutdown (OnComplete (ServerShutdownOp 0) True (servers started_world) ! 0)
   \<and> running_self_ref (OnComplete (ServerShutdownOp 0) True (servers started_world) ! 0)
       = None
   \<and> running_self_ref (servers started_world ! 0) = Some (JsServer 0)
   \<and> \<not> is_shutdown (servers started_world ! 0)
   \<and> OnComplete (ServerShutdownOp 0) False (servers started_world)
       = servers started_world"
proof -
  have h: "(0::nat) < length (servers started_world)"
    by (simp add: started_world_def)
  show ?thesis
    using ServerShutdownOp_OnComplete [OF h] h
    by (simp add: started_world_def)
qed

text \<open>
  Claim C5. The value of a completed \<open>NewCallOp\<close> is null when its call pointer is
  \<^verbatim>\<open>NULL\<close>, and otherwise an object with exactly the properties \<^verbatim>\<open>call\<close>, \<^verbatim>\<open>method\<close>,
  \<^verbatim>\<open>host\<close>, \<^verbatim>\<open>deadline\<close> and \<^verbatim>\<open>metadata\<close>. \<open>GetNodeValue\<close> returns a value in both
  cases: it has no path that throws.
\<close>

theorem NewCallOp_GetNodeValue:
  "GetNodeValue hp (NewCallOp None details request_metadata) = JsNull
   \<and> GetNodeValue hp (NewCallOp (Some c) details request_metadata) =
       JsObject
         [(JsString ''call'', WrapStruct hp c),
          (JsString ''method'', CopyStringFromSlice hp (method_name details)),
          (JsString ''host'', CopyStringFromSlice hp (host details)),
          (JsString ''deadline'', JsDate (TimespecToMilliseconds hp (deadline details))),
          (JsString ''metadata'', ParseMetadata hp request_metadata)]"
  by simp

text \<open>
  Claim C6, as amended. The shutdown operation holds nothing but the back-reference to
  its server. Its value for the host is the handle object of that server, whatever the
  success flag, and completing it does nothing but \<open>FinishShutdown\<close> on that server
  when the flag holds.
\<close>

theorem ServerShutdownOp_GetNodeValue:
  "GetNodeValue hp (ServerShutdownOp p) = JsServer p
   \<and> OnComplete (ServerShutdownOp p) success srvs =
       (if success
        then srvs[p := (srvs ! p)\<lparr>is_shutdown := True, running_self_ref := None\<rparr>]
        else srvs)"
  by (simp add: FinishShutdown_def)

text \<open>
  Claim C6 as stated fails: the value that the shutdown operation gives to the host is
  the server object, which is neither null nor undefined.
\<close>

theorem ServerShutdownOp_GetNodeValue_counterexample:
  "GetNodeValue example_helpers (ServerShutdownOp 0) = JsServer 0
   \<and> GetNodeValue example_helpers (ServerShutdownOp 0) \<noteq> JsNull
   \<and> GetNodeValue example_helpers (ServerShutdownOp 0) \<noteq> JsUndefined"
  by simp

text \<open>
  Claim C10. Completing a \<open>NewCallOp\<close> changes no \<^verbatim>\<open>Server\<close>, whatever the success
  flag: the flag, the self-reference and the wrapped server of every handle stay.
\<close>

theorem NewCallOp_OnComplete:
  "OnComplete (NewCallOp c details request_metadata) success srvs = srvs"
  by simp

subsection \<open>Construction\<close>

text \<open>
  Claim C7. For every malformed configuration, the constructor (called with
  \<^verbatim>\<open>new\<close> or as a plain function) throws at once and leaves the world as it was: no
  call to \<^verbatim>\<open>grpc_server_create\<close> is made and no \<^verbatim>\<open>Server\<close> is allocated. The
  configuration error of the spec is the \<^verbatim>\<open>TypeError\<close> with the message on server
  options that \<^verbatim>\<open>Server::New\<close> throws.
\<close>

theorem New_malformed:
  assumes "malformed cfg"
  shows "New eng IsConstructCall (cfg # rest) w = (Inl ConfigurationError, w)"
  using ParseChannelArgs_malformed [OF assms]
  by (simp add: New_def New_construct_def arg_def)

theorem New_malformed_witness:
  "malformed (JsObject [(JsString ''grpc.max_concurrent_streams'', JsBoolean True)])
   \<and> New example_engine True
        [JsObject [(JsString ''grpc.max_concurrent_streams'', JsBoolean True)]] started_world
       = (Inl (TypeError
            ''Server options must be an object with string keys and integer or string values''),
          started_world)"
proof -
  have h: "malformed (JsObject [(JsString ''grpc.max_concurrent_streams'', JsBoolean True)])"
    by (simp add: malformed_def)
  show ?thesis
    using New_malformed [OF h, of example_engine True "[]" started_world] h
    by (simp add: ConfigurationError_def)
qed

subsection \<open>addHttp2Port\<close>

text \<open>
  Claim C8, as amended. On a server handle and with a string address,
  \<open>addHttp2Port\<close> looks at the credentials object it is given: when the object wraps no
  credentials it binds the address in plaintext mode, otherwise in secured mode. The
  address reaches the core library as a C string, that is, up to its first NUL byte.
  In both modes the call returns the port number that the core library reports (0 when
  binding fails) and leaves every handle unchanged. When the second argument is absent,
  or is not a credentials object, it throws a \<^verbatim>\<open>TypeError\<close> and binds nothing.
\<close>

theorem AddHttp2Port_modes:
  assumes "HasInstance w this" and "arg info 0 = JsString addr"
  shows "(arg info 1 = JsServerCredentials None \<longrightarrow>
            AddHttp2Port eng this info w =
              (let srv = wrapped_server (servers w ! Unwrap this);
                   port = grpc_server_add_insecure_http2_port eng srv (c_str addr) (trace w)
               in (Inr (JsNumber port),
                   w\<lparr>trace := trace w @
                      [E_grpc_server_add_insecure_http2_port srv (c_str addr) port]\<rparr>)))
         \<and> (arg info 1 = JsServerCredentials (Some cr) \<longrightarrow>
            AddHttp2Port eng this info w =
              (let srv = wrapped_server (servers w ! Unwrap this);
                   port = grpc_server_add_secure_http2_port eng srv (c_str addr) cr (trace w)
               in (Inr (JsNumber port),
                   w\<lparr>trace := trace w @
                      [E_grpc_server_add_secure_http2_port srv (c_str addr) cr port]\<rparr>)))
         \<and> (\<not> ServerCredentials_HasInstance (arg info 1) \<longrightarrow>
            AddHttp2Port eng this info w =
              (Inl (TypeError ''addHttp2Port's second argument must be ServerCredentials''),
               w))"
  using assms by (simp add: AddHttp2Port_def called_def Let_def)

theorem AddHttp2Port_modes_witness:
  "HasInstance started_world (JsServer 0)
   \<and> arg [JsString ''0.0.0.0:0'', JsServerCredentials None] 0 = JsString ''0.0.0.0:0''
   \<and> AddHttp2Port example_engine (JsServer 0)
        [JsString ''0.0.0.0:0'', JsServerCredentials None] started_world
       = (Inr (JsNumber 50051),
          started_world\<lparr>trace := trace started_world @
            [E_grpc_server_add_insecure_http2_port 7 ''0.0.0.0:0'' 50051]\<rparr>)
   \<and> arg [JsString [CHR ''a'', CHR 0x00, CHR ''b''], JsServerCredentials (Some 3)] 0
       = JsString [CHR ''a'', CHR 0x00, CHR ''b'']
   \<and> AddHttp2Port example_engine (JsServer 0)
        [JsString [CHR ''a'', CHR 0x00, CHR ''b''], JsServerCredentials (Some 3)]
        started_world
       = (Inr (JsNumber 50052),
          started_world\<lparr>trace := trace started_world @
            [E_grpc_server_add_secure_http2_port 7 ''a'' 3 50052]\<rparr>)"
proof -
  have h1: "HasInstance started_world (JsServer 0)"
    by (simp add: started_world_def)
  have h2: "arg [JsString ''0.0.0.0:0'', JsServerCredentials None] 0 = JsString ''0.0.0.0:0''"
    by (simp add: arg_def)
  have h3: "arg [JsString [CHR ''a'', CHR 0x00, CHR ''b''], JsServerCredentials (Some 3)] 0
              = JsString [CHR ''a'', CHR 0x00, CHR ''b'']"
    by (simp add: arg_def)
  show ?thesis
    using AddHttp2Port_modes [OF h1 h2, where eng = example_engine]
      AddHttp2Port_modes [OF h1 h3, where eng = example_engine and cr = 3] h1 h2 h3
    by (simp add: arg_def started_world_def example_engine_def c_str_def)
qed

text \<open>
  Claim C8 as stated fails when the credentials argument is absent: the call throws
  and makes no call to the core library.
\<close>

theorem AddHttp2Port_absent_credentials_counterexample:
  "AddHttp2Port example_engine (JsServer 0) [JsString ''0.0.0.0:0''] started_world
   = (Inl (TypeError ''addHttp2Port's second argument must be ServerCredentials''),
      started_world)"
  by (simp add: AddHttp2Port_def arg_def started_world_def)

subsection \<open>The nudge after a submission\<close>

text \<open>
  Claim C9. Each of the three operations that submit work nudges the completion queue
  exactly once, right after its submission. On a server handle, \<open>requestCall\<close> whose
  request the core library accepts adds the request and then one nudge;
  \<open>tryShutdown\<close> with a function adds the shutdown notification and then one nudge;
  \<open>forceShutdown\<close> on a handle that is not shut down adds the shutdown notification,
  the cancellation and then one nudge. For every other input (an argument check fails,
  the core library rejects the request, or the handle is already shut down) the
  operation submits no work and makes no nudge.
\<close>

theorem submissions_nudged_once:
  "(HasInstance w this \<and>
      grpc_server_request_call eng (wrapped_server (servers w ! Unwrap this))
        \<lparr>callback = arg info 0,
         ops = [NewCallOp None grpc_call_details_init grpc_metadata_array_init],
         call = None, call_persist = JsNull\<rparr> (trace w) = GRPC_CALL_OK \<longrightarrow>
      new_calls w (snd (RequestCall eng this info w)) =
        [E_grpc_server_request_call (wrapped_server (servers w ! Unwrap this))
           \<lparr>callback = arg info 0,
            ops = [NewCallOp None grpc_call_details_init grpc_metadata_array_init],
            call = None, call_persist = JsNull\<rparr> GRPC_CALL_OK,
         E_CompletionQueueNext])
   \<and> (HasInstance w this \<and> IsFunction (arg info 0) \<longrightarrow>
      new_calls w (snd (TryShutdown this info w)) =
        [E_grpc_server_shutdown_and_notify (wrapped_server (servers w ! Unwrap this))
           \<lparr>callback = arg info 0, ops = [ServerShutdownOp (Unwrap this)],
            call = None, call_persist = JsNull\<rparr>,
         E_CompletionQueueNext])
   \<and> (HasInstance w this \<and> \<not> is_shutdown (servers w ! Unwrap this) \<longrightarrow>
      new_calls w (snd (ForceShutdown this info w)) =
        [E_grpc_server_shutdown_and_notify (wrapped_server (servers w ! Unwrap this))
           \<lparr>callback = JsFunction ShutdownCallback, ops = [ServerShutdownOp (Unwrap this)],
            call = None, call_persist = JsNull\<rparr>,
         E_grpc_server_cancel_all_calls (wrapped_server (servers w ! Unwrap this)),
         E_CompletionQueueNext])
   \<and> nudged_once_after_submission (new_calls w (snd (RequestCall eng this info w)))
   \<and> nudged_once_after_submission (new_calls w (snd (TryShutdown this info w)))
   \<and> nudged_once_after_submission (new_calls w (snd (ForceShutdown this info w)))"
proof -
  have r1: "HasInstance w this \<and>
      grpc_server_request_call eng (wrapped_server (servers w ! Unwrap this))
        \<lparr>callback = arg info 0,
         ops = [NewCallOp None grpc_call_details_init grpc_metadata_array_init],
         call = None, call_persist = JsNull\<rparr> (trace w) = GRPC_CALL_OK \<longrightarrow>
      new_calls w (snd (RequestCall eng this info w)) =
        [E_grpc_server_request_call (wrapped_server (servers w ! Unwrap this))
           \<lparr>callback = arg info 0,
            ops = [NewCallOp None grpc_call_details_init grpc_metadata_array_init],
            call = None, call_persist = JsNull\<rparr> GRPC_CALL_OK,
         E_CompletionQueueNext]"
    by (simp add: RequestCall_def CompletionQueueNext_def called_called new_calls_called
        Let_def)
  have t1: "HasInstance w this \<and> IsFunction (arg info 0) \<longrightarrow>
      new_calls w (snd (TryShutdown this info w)) =
        [E_grpc_server_shutdown_and_notify (wrapped_server (servers w ! Unwrap this))
           \<lparr>callback = arg info 0, ops = [ServerShutdownOp (Unwrap this)],
            call = None, call_persist = JsNull\<rparr>,
         E_CompletionQueueNext]"
    by (simp add: TryShutdown_accepted new_calls_called)
  have f1: "HasInstance w this \<and> \<not> is_shutdown (servers w ! Unwrap this) \<longrightarrow>
      new_calls w (snd (ForceShutdown this info w)) =
        [E_grpc_server_shutdown_and_notify (wrapped_server (servers w ! Unwrap this))
           \<lparr>callback = JsFunction ShutdownCallback, ops = [ServerShutdownOp (Unwrap this)],
            call = None, call_persist = JsNull\<rparr>,
         E_grpc_server_cancel_all_calls (wrapped_server (servers w ! Unwrap this)),
         E_CompletionQueueNext]"
    by (simp add: ForceShutdown_def ShutdownServer_live new_calls_called)
  have r: "nudged_once_after_submission (new_calls w (snd (RequestCall eng this info w)))"
    by (simp add: RequestCall_def CompletionQueueNext_def called_called new_calls_called
        new_calls_same nudged_none Let_def)
       (simp add: nudged_once_after_submission_def)
  have t: "nudged_once_after_submission (new_calls w (snd (TryShutdown this info w)))"
    by (simp add: TryShutdown_def CompletionQueueNext_def called_called new_calls_called
        new_calls_same nudged_none Let_def)
       (simp add: nudged_once_after_submission_def)
  have f: "nudged_once_after_submission (new_calls w (snd (ForceShutdown this info w)))"
    by (simp add: ForceShutdown_def ShutdownServer_def CompletionQueueNext_def
        called_called servers_called new_calls_called new_calls_same nudged_none Let_def)
       (simp add: nudged_once_after_submission_def)
  from r1 t1 f1 r t f show ?thesis by blast
qed

theorem submissions_nudged_once_witness:
  "HasInstance started_world (JsServer 0)
   \<and> IsFunction (arg [JsFunction (UserFunction 1)] 0)
   \<and> \<not> is_shutdown (servers started_world ! Unwrap (JsServer 0))
   \<and> grpc_server_request_call example_engine 7
        \<lparr>callback = JsFunction (UserFunction 1),
         ops = [NewCallOp None grpc_call_details_init grpc_metadata_array_init],
         call = None, call_persist = JsNull\<rparr> (trace started_world) = GRPC_CALL_OK
   \<and> new_calls started_world
        (snd (RequestCall example_engine (JsServer 0) [JsFunction (UserFunction 1)]
                started_world))
       = [E_grpc_server_request_call 7
            \<lparr>callback = JsFunction (UserFunction 1),
             ops = [NewCallOp None grpc_call_details_init grpc_metadata_array_init],
             call = None, call_persist = JsNull\<rparr> GRPC_CALL_OK,
          E_CompletionQueueNext]
   \<and> new_calls started_world
        (snd (TryShutdown (JsServer 0) [JsFunction (UserFunction 1)] started_world))
       = [E_grpc_server_shutdown_and_notify 7
            \<lparr>callback = JsFunction (UserFunction 1), ops = [ServerShutdownOp 0],
             call = None, call_persist = JsNull\<rparr>,
          E_CompletionQueueNext]
   \<and> new_calls started_world
        (snd (ForceShutdown (JsServer 0) [JsFunction (UserFunction 1)] started_world))
       = [E_grpc_server_shutdown_and_notify 7
            \<lparr>callback = JsFunction ShutdownCallback, ops = [ServerShutdownOp 0],
             call = None, call_persist = JsNull\<rparr>,
          E_grpc_server_cancel_all_calls 7,
          E_CompletionQueueNext]
   \<and> nudged_once_after_submission
        (new_calls started_world
           (snd (RequestCall rejecting_engine (JsServer 0) [JsFunction (UserFunction 1)]
                   started_world)))
   \<and> new_calls started_world
        (snd (RequestCall rejecting_engine (JsServer 0) [JsFunction (UserFunction 1)]
                started_world))
       = [E_grpc_server_request_call 7
            \<lparr>callback = JsFunction (UserFunction 1),
             ops = [NewCallOp None grpc_call_details_init grpc_metadata_array_init],
             call = None, call_persist = JsNull\<rparr> 1]"
proof -
  note acc = submissions_nudged_once [of started_world "JsServer 0" example_engine
      "[JsFunction (UserFunction 1)]"]
  note rej = submissions_nudged_once [of started_world "JsServer 0" rejecting_engine
      "[JsFunction (UserFunction 1)]"]
  have w7: "wrapped_server (servers started_world ! Unwrap (JsServer 0)) = 7"
    by (simp add: started_world_def)
  have a0: "arg [JsFunction (UserFunction 1)] 0 = JsFunction (UserFunction 1)"
    by (simp add: arg_def)
  have h1: "HasInstance started_world (JsServer 0)"
    by (simp add: started_world_def)
  have h2: "IsFunction (arg [JsFunction (UserFunction 1)] 0)"
    by (simp add: arg_def)
  have h3: "\<not> is_shutdown (servers started_world ! Unwrap (JsServer 0))"
    by (simp add: started_world_def)
  have h4: "grpc_server_request_call example_engine 7
        \<lparr>callback = JsFunction (UserFunction 1),
         ops = [NewCallOp None grpc_call_details_init grpc_metadata_array_init],
         call = None, call_persist = JsNull\<rparr> (trace started_world) = GRPC_CALL_OK"
    by (simp add: example_engine_def)
  have c1: "new_calls started_world
        (snd (RequestCall example_engine (JsServer 0) [JsFunction (UserFunction 1)]
                started_world))
       = [E_grpc_server_request_call 7
            \<lparr>callback = JsFunction (UserFunction 1),
             ops = [NewCallOp None grpc_call_details_init grpc_metadata_array_init],
             call = None, call_persist = JsNull\<rparr> GRPC_CALL_OK,
          E_CompletionQueueNext]"
    using acc h1 h4 unfolding w7 a0 by blast
  have c2: "new_calls started_world
        (snd (TryShutdown (JsServer 0) [JsFunction (UserFunction 1)] started_world))
       = [E_grpc_server_shutdown_and_notify 7
            \<lparr>callback = JsFunction (UserFunction 1), ops = [ServerShutdownOp 0],
             call = None, call_persist = JsNull\<rparr>,
          E_CompletionQueueNext]"
    using acc h1 h2 unfolding w7 a0 by simp
  have c3: "new_calls started_world
        (snd (ForceShutdown (JsServer 0) [JsFunction (UserFunction 1)] started_world))
       = [E_grpc_server_shutdown_and_notify 7
            \<lparr>callback = JsFunction ShutdownCallback, ops = [ServerShutdownOp 0],
             call = None, call_persist = JsNull\<rparr>,
          E_grpc_server_cancel_all_calls 7,
          E_CompletionQueueNext]"
    using acc h1 h3 unfolding w7 a0 by simp
  have c4: "nudged_once_after_submission
        (new_calls started_world
           (snd (RequestCall rejecting_engine (JsServer 0) [JsFunction (UserFunction 1)]
                   started_world)))"
    using rej by blast
  have c5: "new_calls started_world
        (snd (RequestCall rejecting_engine (JsServer 0) [JsFunction (UserFunction 1)]
                started_world))
       = [E_grpc_server_request_call 7
            \<lparr>callback = JsFunction (UserFunction 1),
             ops = [NewCallOp None grpc_call_details_init grpc_metadata_array_init],
             call = None, call_persist = JsNull\<rparr> 1]"
    by (simp add: RequestCall_def called_def new_calls_def arg_def started_world_def
        example_engine_def rejecting_engine_def GRPC_CALL_OK_def Let_def)
  from h1 h2 h3 h4 c1 c2 c3 c4 c5 show ?thesis by blast
qed

end
